theory Spec2Isabelle
  imports Complex_Main
begin

section \<open>Timestamps and the month string of the report\<close>

text \<open>
  \<^verbatim>\<open>datetime.now()\<close> is a Python datetime; the program stores its \<^verbatim>\<open>isoformat()\<close>
  (\<^verbatim>\<open>YYYY-MM-DDTHH:MM:SS.ffffff\<close>) in the columns \<^verbatim>\<open>start_time\<close> and \<^verbatim>\<open>end_time\<close>.
  A stored timestamp is modelled by the fields it was rendered from.
\<close>

record datetime =
  dt_year :: nat
  dt_month :: nat
  dt_day :: nat
  dt_hour :: nat
  dt_minute :: nat
  dt_second :: nat
  dt_microsecond :: nat

definition digit_char :: "nat \<Rightarrow> char" where
  "digit_char d = char_of (48 + d)"

text \<open>Python's \<^verbatim>\<open>str\<close> on a non-negative int: decimal digits, no leading zero.\<close>

function str_nat :: "nat \<Rightarrow> string" where
  "str_nat n = (if n < 10 then [digit_char n]
                else str_nat (n div 10) @ [digit_char (n mod 10)])"
  by pat_completeness auto
termination
  by (relation "measure (\<lambda>n. n)") auto

declare str_nat.simps [simp del]

definition str_int :: "int \<Rightarrow> string" where
  "str_int i = (if i < 0 then CHR ''-'' # str_nat (nat (- i)) else str_nat (nat i))"

text \<open>
  Python's \<^verbatim>\<open>str.zfill(width)\<close>: pads with zeros on the left up to the width, after
  a leading sign if there is one; a string that is long enough is returned as it is.
\<close>

definition zfill :: "nat \<Rightarrow> string \<Rightarrow> string" where
  "zfill w s =
     (if w \<le> length s then s
      else (case s of
              [] \<Rightarrow> replicate w CHR ''0''
            | c # cs \<Rightarrow>
                if c = CHR ''+'' \<or> c = CHR ''-''
                then c # replicate (w - length s) CHR ''0'' @ cs
                else replicate (w - length s) CHR ''0'' @ s))"

section \<open>The store\<close>

text \<open>
  One row of \<^verbatim>\<open>time_entries\<close>. Only \<^verbatim>\<open>label\<close> is declared NOT NULL; both
  timestamps may be NULL in the schema.
\<close>

record row =
  id_col :: nat
  label_col :: string
  start_time_col :: "datetime option"
  end_time_col :: "datetime option"

text \<open>
  The table with its AUTOINCREMENT counter (SQLite's \<^verbatim>\<open>sqlite_sequence\<close>). The
  database file is \<open>None\<close> as long as the table has not been created.
\<close>

record table =
  entries :: "row list"
  sqlite_sequence :: nat

type_synonym store = "table option"

datatype error = OperationalError

text \<open>
  A connection of Python's \<^verbatim>\<open>sqlite3\<close>: statements change the working copy,
  \<^verbatim>\<open>commit\<close> makes it durable, \<^verbatim>\<open>close\<close> drops what was not committed.
\<close>

record connection =
  committed :: store
  working :: store

definition connect :: "store \<Rightarrow> connection" where
  "connect s = \<lparr>committed = s, working = s\<rparr>"

definition commit :: "connection \<Rightarrow> connection" where
  "commit c = c\<lparr>committed := working c\<rparr>"

definition close :: "connection \<Rightarrow> store" where
  "close c = committed c"

section \<open>The SQL statements\<close>

text \<open>\<^verbatim>\<open>CREATE TABLE IF NOT EXISTS time_entries (...)\<close>\<close>

definition create_table_if_not_exists :: "store \<Rightarrow> store" where
  "create_table_if_not_exists s =
     (case s of None \<Rightarrow> Some \<lparr>entries = [], sqlite_sequence = 0\<rparr> | Some t \<Rightarrow> Some t)"

text \<open>\<^verbatim>\<open>WHERE label = ? AND end_time IS NULL\<close>\<close>

definition is_active :: "string \<Rightarrow> row \<Rightarrow> bool" where
  "is_active l r \<longleftrightarrow> label_col r = l \<and> end_time_col r = None"

text \<open>\<^verbatim>\<open>SELECT id FROM time_entries WHERE label = ? AND end_time IS NULL\<close>\<close>

definition select_active :: "string \<Rightarrow> table \<Rightarrow> nat list" where
  "select_active l t = map id_col (filter (is_active l) (entries t))"

fun fetchone :: "'a list \<Rightarrow> 'a option" where
  "fetchone [] = None"
| "fetchone (x # xs) = Some x"

text \<open>
  \<^verbatim>\<open>INSERT INTO time_entries (label, start_time) VALUES (?, ?)\<close>. An AUTOINCREMENT
  key is one more than the largest rowid the table has ever held, which is the larger of the
  counter in \<^verbatim>\<open>sqlite_sequence\<close> and the largest id in the table. A rowid is a signed
  64-bit integer: once the largest one, \<open>2\<^sup>6\<^sup>3 - 1\<close>, has been used, SQLite refuses
  the statement (\<^verbatim>\<open>database or disk is full\<close>, an \<^verbatim>\<open>sqlite3.OperationalError\<close> in
  Python) and stores nothing. Otherwise the new row gets the key and a NULL
  \<^verbatim>\<open>end_time\<close>, and the counter is set to the key.
\<close>

definition max_rowid :: nat where
  "max_rowid = 9223372036854775807"

definition largest_rowid :: "table \<Rightarrow> nat" where
  "largest_rowid t = max (sqlite_sequence t) (fold max (map id_col (entries t)) 0)"

definition next_rowid :: "table \<Rightarrow> nat option" where
  "next_rowid t = (if max_rowid \<le> largest_rowid t then None else Some (Suc (largest_rowid t)))"

definition insert_entry :: "string \<Rightarrow> datetime \<Rightarrow> table \<Rightarrow> error + table" where
  "insert_entry l now t =
     (case next_rowid t of
        None \<Rightarrow> Inl OperationalError
      | Some i \<Rightarrow>
          Inr \<lparr>entries = entries t @
                 [\<lparr>id_col = i, label_col = l, start_time_col = Some now, end_time_col = None\<rparr>],
               sqlite_sequence = i\<rparr>)"

text \<open>
  \<^verbatim>\<open>UPDATE time_entries SET end_time = ? WHERE label = ? AND end_time IS NULL\<close>,
  with the cursor's \<^verbatim>\<open>rowcount\<close>.
\<close>

fun update_end_time :: "datetime \<Rightarrow> string \<Rightarrow> row list \<Rightarrow> row list \<times> nat" where
  "update_end_time now l [] = ([], 0)"
| "update_end_time now l (r # rs) =
     (case update_end_time now l rs of
        (rs', n) \<Rightarrow>
          if is_active l r then (r\<lparr>end_time_col := Some now\<rparr> # rs', Suc n)
          else (r # rs', n))"

text \<open>
  The report query
  \<^verbatim>\<open>SELECT label, SUM((julianday(end_time) - julianday(start_time)) * 24) ... WHERE
  strftime('%m', start_time) = ? AND end_time IS NOT NULL GROUP BY label\<close>
  is answered inside SQLite: its date functions round a timestamp to the millisecond and
  (SQLite 3.46.0) read the month of a day after the 28th back from the rounded Julian day; the
  hours are IEEE doubles; the order of the groups is the engine's. None of this is in the
  program, so the rows the query returns are a parameter \<open>select_hours\<close> of the functions
  below: a function of the month string and the rows of the table, to a list of pairs of a
  label and its hours (the real number the double stands for). The sum of a group is NULL
  only when SQLite can parse no timestamp of it, and \<^verbatim>\<open>isoformat()\<close> writes none of
  that kind. The program reads the table through the query and writes nothing.
\<close>

type_synonym hours_query = "string \<Rightarrow> row list \<Rightarrow> (string \<times> real) list"

section \<open>The program\<close>

text \<open>What the program prints, one constructor for each \<^verbatim>\<open>print\<close> of the source.\<close>

datatype message =
    ErrorActiveSession string
  | StartedTiming string
  | ErrorNoActiveSession string
  | StoppedTiming string
  | NoEntriesFound int
  | HoursHeader int
  | Separator
  | HoursLine string real
  | ErrorLabelRequiredStart
  | ErrorLabelRequiredStop
  | ErrorValidMonth
  | Traceback error

definition init_db :: "store \<Rightarrow> store" where
  "init_db s =
     (let conn = connect s;
          conn = conn\<lparr>working := create_table_if_not_exists (working conn)\<rparr>;
          conn = commit conn
      in close conn)"

text \<open>
  A statement that SQLite refuses (the table is missing, or the INSERT finds no free rowid)
  raises \<^verbatim>\<open>sqlite3.OperationalError\<close>, which the program does not catch; nothing was
  committed then, and the database is the one the call was given.
\<close>

definition start_time :: "datetime \<Rightarrow> string \<Rightarrow> store \<Rightarrow> error + store \<times> message list" where
  "start_time now l s =
     (let conn = connect s in
      case working conn of
        None \<Rightarrow> Inl OperationalError
      | Some t \<Rightarrow>
          (case fetchone (select_active l t) of
             Some i \<Rightarrow> Inr (close conn, [ErrorActiveSession l])
           | None \<Rightarrow>
               (case insert_entry l now t of
                  Inl e \<Rightarrow> Inl e
                | Inr t' \<Rightarrow>
                    (let conn = conn\<lparr>working := Some t'\<rparr>;
                         conn = commit conn
                     in Inr (close conn, [StartedTiming l])))))"

definition stop_time :: "datetime \<Rightarrow> string \<Rightarrow> store \<Rightarrow> error + store \<times> message list" where
  "stop_time now l s =
     (let conn = connect s in
      case working conn of
        None \<Rightarrow> Inl OperationalError
      | Some t \<Rightarrow>
          (case update_end_time now l (entries t) of
             (rs, rowcount) \<Rightarrow>
               (let conn = conn\<lparr>working := Some (t\<lparr>entries := rs\<rparr>)\<rparr>;
                    out = (if rowcount = 0 then [ErrorNoActiveSession l] else [StoppedTiming l]);
                    conn = commit conn
                in Inr (close conn, out))))"

definition get_hours :: "hours_query \<Rightarrow> int \<Rightarrow> store \<Rightarrow> error + store \<times> message list" where
  "get_hours select_hours month s =
     (let conn = connect s in
      case working conn of
        None \<Rightarrow> Inl OperationalError
      | Some t \<Rightarrow>
          (let results = select_hours (zfill 2 (str_int month)) (entries t);
               s' = close conn
           in if results = [] then Inr (s', [NoEntriesFound month])
              else Inr (s', HoursHeader month # Separator # map (\<lambda>(l, h). HoursLine l h) results)))"

text \<open>
  The parsed command line: \<^verbatim>\<open>action\<close> is one of the three choices, \<^verbatim>\<open>label\<close>
  defaults to \<^verbatim>\<open>work\<close> and \<^verbatim>\<open>month\<close> to the current month.
\<close>

datatype action = Start | Stop | Hours

record args =
  action :: action
  label :: string
  month :: int

text \<open>
  The exit status of the process: \<^verbatim>\<open>sys.exit(1)\<close> gives 1, an uncaught exception
  gives 1, returning from \<^verbatim>\<open>main\<close> gives 0.
\<close>

definition finish :: "store \<Rightarrow> error + store \<times> message list \<Rightarrow> nat \<times> store \<times> message list" where
  "finish s r = (case r of Inl e \<Rightarrow> (1, s, [Traceback e]) | Inr (s', out) \<Rightarrow> (0, s', out))"

definition main :: "hours_query \<Rightarrow> datetime \<Rightarrow> args \<Rightarrow> store
    \<Rightarrow> nat \<times> store \<times> message list" where
  "main select_hours now a s0 =
     (let s = init_db s0 in
      case action a of
        Start \<Rightarrow>
          if label a = [] then (1, s, [ErrorLabelRequiredStart])
          else finish s (start_time now (label a) s)
      | Stop \<Rightarrow>
          if label a = [] then (1, s, [ErrorLabelRequiredStop])
          else finish s (stop_time now (label a) s)
      | Hours \<Rightarrow>
          if month a = 0 \<or> \<not> (1 \<le> month a \<and> month a \<le> 12) then (1, s, [ErrorValidMonth])
          else finish s (get_hours select_hours (month a) s))"

section \<open>Notions of the specification\<close>

text \<open>At most one open session for each label: the labels of the open entries are distinct.\<close>

definition one_active_per_label :: "row list \<Rightarrow> bool" where
  "one_active_per_label rs \<longleftrightarrow>
     distinct (map label_col (filter (\<lambda>r. end_time_col r = None) rs))"

text \<open>
  Every entry of the old table that was closed is still at its place in the new table, with
  the same id and the same \<^verbatim>\<open>end_time\<close>.
\<close>

definition end_times_kept :: "row list \<Rightarrow> row list \<Rightarrow> bool" where
  "end_times_kept old new \<longleftrightarrow>
     length old \<le> length new \<and>
     list_all2 (\<lambda>a b. end_time_col a \<noteq> None \<longrightarrow>
                  id_col b = id_col a \<and> end_time_col b = end_time_col a)
       old (take (length old) new)"

text \<open>The number of places at which two tables differ.\<close>

definition rows_changed :: "row list \<Rightarrow> row list \<Rightarrow> nat" where
  "rows_changed old new = length (filter (\<lambda>(a, b). a \<noteq> b) (zip old new))"

section \<open>Example data\<close>

definition t0900 :: datetime where
  "t0900 = \<lparr>dt_year = 2024, dt_month = 7, dt_day = 1, dt_hour = 9, dt_minute = 0,
             dt_second = 0, dt_microsecond = 0\<rparr>"

definition t1130 :: datetime where
  "t1130 = \<lparr>dt_year = 2024, dt_month = 7, dt_day = 1, dt_hour = 11, dt_minute = 30,
             dt_second = 0, dt_microsecond = 0\<rparr>"

definition active_row :: "nat \<Rightarrow> string \<Rightarrow> datetime \<Rightarrow> row" where
  "active_row i l s = \<lparr>id_col = i, label_col = l, start_time_col = Some s, end_time_col = None\<rparr>"

definition closed_row :: "nat \<Rightarrow> string \<Rightarrow> datetime \<Rightarrow> datetime \<Rightarrow> row" where
  "closed_row i l s e =
     \<lparr>id_col = i, label_col = l, start_time_col = Some s, end_time_col = Some e\<rparr>"

definition empty_table :: table where
  "empty_table = \<lparr>entries = [], sqlite_sequence = 0\<rparr>"

definition one_active_table :: table where
  "one_active_table = \<lparr>entries = [active_row 1 ''work'' t0900], sqlite_sequence = 1\<rparr>"

definition two_active_table :: table where
  "two_active_table =
     \<lparr>entries = [active_row 1 ''work'' t0900, active_row 2 ''work'' t0900],
      sqlite_sequence = 2\<rparr>"

definition mixed_table :: table where
  "mixed_table =
     \<lparr>entries = [closed_row 1 ''work'' t0900 t1130, active_row 2 ''writing'' t0900,
                 closed_row 3 ''work'' t0900 t1130],
      sqlite_sequence = 3\<rparr>"

text \<open>A table whose one entry, closed, has the largest rowid.\<close>

definition full_table :: table where
  "full_table =
     \<lparr>entries = [closed_row 9223372036854775807 ''work'' t0900 t1130],
      sqlite_sequence = 9223372036854775807\<rparr>"

section \<open>The statements and the functions, unfolded\<close>

lemma update_end_time_rows:
  "fst (update_end_time now l rs) =
     map (\<lambda>r. if is_active l r then r\<lparr>end_time_col := Some now\<rparr> else r) rs"
  by (induction rs) (auto split: prod.splits)

lemma update_end_time_rowcount:
  "snd (update_end_time now l rs) = length (filter (is_active l) rs)"
  by (induction rs) (auto split: prod.splits)

lemma init_db_eq: "init_db s = create_table_if_not_exists s"
  by (simp add: init_db_def connect_def commit_def close_def)

lemma start_time_Some:
  "start_time now l (Some t) =
     (if filter (is_active l) (entries t) = []
      then (case insert_entry l now t of
              Inl e \<Rightarrow> Inl e
            | Inr t' \<Rightarrow> Inr (Some t', [StartedTiming l]))
      else Inr (Some t, [ErrorActiveSession l]))"
  by (cases "filter (is_active l) (entries t)")
    (simp_all add: start_time_def connect_def commit_def close_def select_active_def
      split: sum.splits)

lemma stop_time_Some:
  "stop_time now l (Some t) =
     Inr (Some (t\<lparr>entries := map (\<lambda>r. if is_active l r then r\<lparr>end_time_col := Some now\<rparr> else r) (entries t)\<rparr>),
          if filter (is_active l) (entries t) = [] then [ErrorNoActiveSession l] else [StoppedTiming l])"
proof -
  obtain rs n where u: "update_end_time now l (entries t) = (rs, n)"
    by (cases "update_end_time now l (entries t)")
  from u have rs: "rs = map (\<lambda>r. if is_active l r then r\<lparr>end_time_col := Some now\<rparr> else r) (entries t)"
    using update_end_time_rows [of now l "entries t"] by simp
  from u have n: "n = length (filter (is_active l) (entries t))"
    using update_end_time_rowcount [of now l "entries t"] by simp
  show ?thesis
    by (simp add: stop_time_def connect_def commit_def close_def u rs n)
qed

lemma get_hours_Some:
  "get_hours sel m (Some t) =
     (let results = sel (zfill 2 (str_int m)) (entries t)
      in if results = [] then Inr (Some t, [NoEntriesFound m])
         else Inr (Some t, HoursHeader m # Separator # map (\<lambda>(l, h). HoursLine l h) results))"
  by (simp add: get_hours_def connect_def close_def Let_def)

lemma filter_active_empty_iff:
  "filter (is_active l) rs = [] \<longleftrightarrow> \<not> (\<exists>r\<in>set rs. label_col r = l \<and> end_time_col r = None)"
  by (auto simp: filter_empty_conv is_active_def)

lemma is_active_eq: "is_active l = (\<lambda>r. label_col r = l \<and> end_time_col r = None)"
  by (rule ext) (simp add: is_active_def)

lemma end_time_update_neq:
  assumes "end_time_col r = None"
  shows "r \<noteq> r\<lparr>end_time_col := Some now\<rparr>"
proof
  assume "r = r\<lparr>end_time_col := Some now\<rparr>"
  then have "end_time_col r = end_time_col (r\<lparr>end_time_col := Some now\<rparr>)"
    by (rule arg_cong)
  with assms show False by simp
qed

lemma rows_changed_map:
  "rows_changed rs (map (\<lambda>r. if is_active l r then r\<lparr>end_time_col := Some now\<rparr> else r) rs) =
     length (filter (is_active l) rs)"
proof (induction rs)
  case Nil
  then show ?case by (simp add: rows_changed_def)
next
  case (Cons r rs)
  then show ?case
    using end_time_update_neq [of r now]
    by (cases "is_active l r") (simp_all add: rows_changed_def is_active_def)
qed

text \<open>The month strings the report query is given.\<close>

lemma month_strings:
  "map (\<lambda>m. zfill 2 (str_int m)) [1, 2, 3, 4, 5, 6, 7, 8, 9, 10, 11, 12] =
     [''01'', ''02'', ''03'', ''04'', ''05'', ''06'', ''07'', ''08'', ''09'', ''10'', ''11'', ''12'']"
  by code_simp

section \<open>The invariants, step by step\<close>

lemma end_times_kept_refl: "end_times_kept rs rs"
  by (simp add: end_times_kept_def list_all2_same)

lemma end_times_kept_append: "end_times_kept rs (rs @ [r])"
  by (simp add: end_times_kept_def list_all2_same)

lemma end_times_kept_update:
  "end_times_kept rs (map (\<lambda>r. if is_active l r then r\<lparr>end_time_col := Some now\<rparr> else r) rs)"
  by (simp add: end_times_kept_def list_all2_map2 list_all2_same is_active_def)

lemma one_active_insert:
  assumes "one_active_per_label rs" and "filter (is_active l) rs = []"
  shows "one_active_per_label
           (rs @ [\<lparr>id_col = i, label_col = l, start_time_col = Some now, end_time_col = None\<rparr>])"
proof -
  from assms(2) have "l \<notin> label_col ` {r \<in> set rs. end_time_col r = None}"
    by (auto simp: filter_empty_conv is_active_def)
  with assms(1) show ?thesis
    by (simp add: one_active_per_label_def)
qed

lemma active_after_update:
  "filter (\<lambda>r. end_time_col r = None)
     (map (\<lambda>r. if is_active l r then r\<lparr>end_time_col := Some now\<rparr> else r) rs) =
   filter (\<lambda>r. label_col r \<noteq> l) (filter (\<lambda>r. end_time_col r = None) rs)"
  by (induction rs) (auto simp: is_active_def)

lemma one_active_update:
  assumes "one_active_per_label rs"
  shows "one_active_per_label
           (map (\<lambda>r. if is_active l r then r\<lparr>end_time_col := Some now\<rparr> else r) rs)"
proof -
  have "map label_col (filter (\<lambda>r. label_col r \<noteq> l) (filter (\<lambda>r. end_time_col r = None) rs)) =
        filter (\<lambda>k. k \<noteq> l) (map label_col (filter (\<lambda>r. end_time_col r = None) rs))"
    by (simp add: filter_map comp_def)
  with assms show ?thesis
    by (simp add: one_active_per_label_def active_after_update distinct_filter)
qed

lemma distinct_map_filter_le:
  "distinct (map f xs) \<longleftrightarrow> (\<forall>k. length (filter (\<lambda>x. f x = k) xs) \<le> 1)"
proof (induction xs)
  case Nil
  then show ?case by simp
next
  case (Cons x xs)
  show ?case
  proof
    assume d: "distinct (map f (x # xs))"
    then have nx: "\<forall>y\<in>set xs. f y \<noteq> f x" by (auto simp: image_iff)
    then have "filter (\<lambda>y. f y = f x) xs = []" by (simp add: filter_empty_conv)
    with d Cons show "\<forall>k. length (filter (\<lambda>y. f y = k) (x # xs)) \<le> 1" by auto
  next
    assume a: "\<forall>k. length (filter (\<lambda>y. f y = k) (x # xs)) \<le> 1"
    then have "length (filter (\<lambda>y. f y = f x) (x # xs)) \<le> 1" by blast
    then have e: "filter (\<lambda>y. f y = f x) xs = []" by simp
    have "\<forall>k. length (filter (\<lambda>y. f y = k) xs) \<le> 1"
    proof
      fix k
      from a have "length (filter (\<lambda>y. f y = k) (x # xs)) \<le> 1" by blast
      then show "length (filter (\<lambda>y. f y = k) xs) \<le> 1" by (simp split: if_splits)
    qed
    with Cons have "distinct (map f xs)" by simp
    moreover from e have "f x \<notin> f ` set xs" by (auto simp: filter_empty_conv)
    ultimately show "distinct (map f (x # xs))" by simp
  qed
qed

lemma one_active_per_label_iff:
  "one_active_per_label rs \<longleftrightarrow> (\<forall>l. length (filter (is_active l) rs) \<le> 1)"
proof -
  have "\<And>l. filter (\<lambda>r. label_col r = l) (filter (\<lambda>r. end_time_col r = None) rs) =
            filter (is_active l) rs"
    by (simp add: is_active_eq conj_commute)
  then show ?thesis
    by (simp add: one_active_per_label_def distinct_map_filter_le)
qed

section \<open>start\<close>

text \<open>
  C3. The claim that \<^verbatim>\<open>start_time\<close> appends an entry and succeeds on every store
  without an open entry of the label fails where the largest rowid has been used: the
  INSERT is refused, \<^verbatim>\<open>start_time\<close> raises and no entry is appended.
\<close>

theorem start_time_rowid_full_counterexample:
  "\<not> (\<exists>r\<in>set (entries full_table). label_col r = ''work'' \<and> end_time_col r = None)
   \<and> start_time t0900 ''work'' (Some full_table) = Inl OperationalError
   \<and> finish (Some full_table) (start_time t0900 ''work'' (Some full_table)) =
       (1, Some full_table, [Traceback OperationalError])"
  by (simp add: start_time_Some insert_entry_def next_rowid_def largest_rowid_def max_rowid_def
      full_table_def closed_row_def is_active_def finish_def)

text \<open>
  C3, as the code has it. On a store whose table exists: when an entry with the label has
  no \<^verbatim>\<open>end_time\<close>, \<^verbatim>\<open>start_time\<close> prints the error for an active session and the
  store is the one it was. Otherwise, when the largest rowid has been used, it raises
  \<^verbatim>\<open>sqlite3.OperationalError\<close> before any commit. Otherwise it appends exactly one
  entry, with the next rowid, that label, \<^verbatim>\<open>start_time\<close> the current time and no
  \<^verbatim>\<open>end_time\<close>, and prints the confirmation.
\<close>

theorem start_time_active_or_appends:
  "start_time now l (Some t) =
     (if \<exists>r\<in>set (entries t). label_col r = l \<and> end_time_col r = None
      then Inr (Some t, [ErrorActiveSession l])
      else if max_rowid \<le> largest_rowid t
      then Inl OperationalError
      else Inr (Some \<lparr>entries = entries t @
                        [\<lparr>id_col = Suc (largest_rowid t), label_col = l,
                          start_time_col = Some now, end_time_col = None\<rparr>],
                      sqlite_sequence = Suc (largest_rowid t)\<rparr>,
                [StartedTiming l]))"
  by (simp add: start_time_Some filter_active_empty_iff insert_entry_def next_rowid_def)

theorem start_time_active_or_appends_witness:
  "start_time t0900 ''work'' (Some empty_table) = Inr (Some one_active_table, [StartedTiming ''work''])
   \<and> start_time t1130 ''work'' (Some one_active_table) =
       Inr (Some one_active_table, [ErrorActiveSession ''work''])
   \<and> start_time t1130 ''writing'' (Some full_table) = Inl OperationalError"
  using start_time_active_or_appends [of t0900 "''work''" empty_table]
    start_time_active_or_appends [of t1130 "''work''" one_active_table]
    start_time_active_or_appends [of t1130 "''writing''" full_table]
  by (simp add: empty_table_def one_active_table_def full_table_def active_row_def closed_row_def
      largest_rowid_def max_rowid_def)

section \<open>stop\<close>

text \<open>
  C4. When no entry with the label is open, \<^verbatim>\<open>stop_time\<close> prints the error for a
  missing session and the store is exactly the one it was.
\<close>

theorem stop_time_no_active:
  assumes "\<not> (\<exists>r\<in>set (entries t). label_col r = l \<and> end_time_col r = None)"
  shows "stop_time now l (Some t) = Inr (Some t, [ErrorNoActiveSession l])"
proof -
  from assms have e: "filter (is_active l) (entries t) = []"
    by (simp add: filter_active_empty_iff)
  from assms have "map (\<lambda>r. if is_active l r then r\<lparr>end_time_col := Some now\<rparr> else r) (entries t) = entries t"
    by (intro map_idI) (auto simp: is_active_def)
  with e show ?thesis by (simp add: stop_time_Some)
qed

theorem stop_time_no_active_witness:
  "\<not> (\<exists>r\<in>set (entries mixed_table). label_col r = ''work'' \<and> end_time_col r = None)
   \<and> stop_time t1130 ''work'' (Some mixed_table) = Inr (Some mixed_table, [ErrorNoActiveSession ''work''])"
proof -
  have h: "\<not> (\<exists>r\<in>set (entries mixed_table). label_col r = ''work'' \<and> end_time_col r = None)"
    by (simp add: mixed_table_def closed_row_def active_row_def)
  from h stop_time_no_active [OF h, of t1130] show ?thesis by simp
qed

text \<open>
  C10. When at least one entry with the label is open, \<^verbatim>\<open>stop_time\<close> gives every
  one of them the same \<^verbatim>\<open>end_time\<close>, the one current time it read, keeps their id,
  label and \<^verbatim>\<open>start_time\<close>, leaves every other entry as it was, and prints the
  confirmation.
\<close>

theorem stop_time_closes_all_active:
  assumes "\<exists>r\<in>set (entries t). label_col r = l \<and> end_time_col r = None"
  shows "\<exists>rs. stop_time now l (Some t) =
                Inr (Some \<lparr>entries = rs, sqlite_sequence = sqlite_sequence t\<rparr>, [StoppedTiming l])
          \<and> length rs = length (entries t)
          \<and> (\<forall>i<length rs.
                if label_col (entries t ! i) = l \<and> end_time_col (entries t ! i) = None
                then end_time_col (rs ! i) = Some now
                   \<and> id_col (rs ! i) = id_col (entries t ! i)
                   \<and> label_col (rs ! i) = label_col (entries t ! i)
                   \<and> start_time_col (rs ! i) = start_time_col (entries t ! i)
                else rs ! i = entries t ! i)"
proof -
  let ?rs = "map (\<lambda>r. if is_active l r then r\<lparr>end_time_col := Some now\<rparr> else r) (entries t)"
  from assms have ne: "filter (is_active l) (entries t) \<noteq> []"
    by (simp add: filter_active_empty_iff)
  have "stop_time now l (Some t) =
          Inr (Some \<lparr>entries = ?rs, sqlite_sequence = sqlite_sequence t\<rparr>, [StoppedTiming l])"
    using ne by (simp add: stop_time_Some)
  moreover have "length ?rs = length (entries t)" by simp
  moreover have "\<forall>i<length ?rs.
                if label_col (entries t ! i) = l \<and> end_time_col (entries t ! i) = None
                then end_time_col (?rs ! i) = Some now
                   \<and> id_col (?rs ! i) = id_col (entries t ! i)
                   \<and> label_col (?rs ! i) = label_col (entries t ! i)
                   \<and> start_time_col (?rs ! i) = start_time_col (entries t ! i)
                else ?rs ! i = entries t ! i"
    by (simp add: is_active_def)
  ultimately show ?thesis by blast
qed

theorem stop_time_closes_all_active_witness:
  "(\<exists>r\<in>set (entries two_active_table). label_col r = ''work'' \<and> end_time_col r = None)
   \<and> (\<exists>rs. stop_time t1130 ''work'' (Some two_active_table) =
              Inr (Some \<lparr>entries = rs, sqlite_sequence = 2\<rparr>, [StoppedTiming ''work''])
          \<and> length rs = 2
          \<and> end_time_col (rs ! 0) = Some t1130 \<and> end_time_col (rs ! 1) = Some t1130
          \<and> start_time_col (rs ! 0) = Some t0900 \<and> start_time_col (rs ! 1) = Some t0900)"
proof -
  have h: "\<exists>r\<in>set (entries two_active_table). label_col r = ''work'' \<and> end_time_col r = None"
    by (simp add: two_active_table_def active_row_def)
  from stop_time_closes_all_active [OF h, of t1130] obtain rs where
    st: "stop_time t1130 ''work'' (Some two_active_table) =
           Inr (Some \<lparr>entries = rs, sqlite_sequence = sqlite_sequence two_active_table\<rparr>,
                [StoppedTiming ''work''])"
    and len: "length rs = length (entries two_active_table)"
    and pt: "\<forall>i<length rs.
                if label_col (entries two_active_table ! i) = ''work''
                   \<and> end_time_col (entries two_active_table ! i) = None
                then end_time_col (rs ! i) = Some t1130
                   \<and> id_col (rs ! i) = id_col (entries two_active_table ! i)
                   \<and> label_col (rs ! i) = label_col (entries two_active_table ! i)
                   \<and> start_time_col (rs ! i) = start_time_col (entries two_active_table ! i)
                else rs ! i = entries two_active_table ! i"
    by blast
  from len have l2: "length rs = 2" by (simp add: two_active_table_def)
  from pt l2 have "end_time_col (rs ! 0) = Some t1130 \<and> start_time_col (rs ! 0) = Some t0900"
    by (simp add: two_active_table_def active_row_def)
  moreover from pt l2 have "end_time_col (rs ! 1) = Some t1130 \<and> start_time_col (rs ! 1) = Some t0900"
    by (simp add: two_active_table_def active_row_def)
  moreover from st have "stop_time t1130 ''work'' (Some two_active_table) =
              Inr (Some \<lparr>entries = rs, sqlite_sequence = 2\<rparr>, [StoppedTiming ''work''])"
    by (simp add: two_active_table_def)
  ultimately show ?thesis using h l2 by blast
qed

text \<open>
  C2. The claim that \<^verbatim>\<open>stop_time\<close> closes one entry only, or reports several open
  entries of a label as a violation, fails: with two open entries of \<^verbatim>\<open>work\<close> it
  closes both and prints the plain confirmation.
\<close>

theorem stop_time_two_active_counterexample:
  "1 < length (filter (\<lambda>r. label_col r = ''work'' \<and> end_time_col r = None)
                (entries two_active_table))
   \<and> stop_time t1130 ''work'' (Some two_active_table) =
       Inr (Some \<lparr>entries = [closed_row 1 ''work'' t0900 t1130,
                              closed_row 2 ''work'' t0900 t1130],
                  sqlite_sequence = 2\<rparr>,
            [StoppedTiming ''work''])
   \<and> rows_changed (entries two_active_table)
        [closed_row 1 ''work'' t0900 t1130, closed_row 2 ''work'' t0900 t1130] = 2
   \<and> rows_changed (entries two_active_table)
        [closed_row 1 ''work'' t0900 t1130, closed_row 2 ''work'' t0900 t1130] \<noteq> 1"
  by (simp add: stop_time_Some two_active_table_def active_row_def closed_row_def is_active_def
      rows_changed_def)

text \<open>
  C2, as the code has it: when more than one entry with the label is open,
  \<^verbatim>\<open>stop_time\<close> sets the \<^verbatim>\<open>end_time\<close> of every one of them to the current time and
  changes nothing else, neither another field of those entries nor any other entry nor the
  counter; the entries it changed are as many as were open for the label, none of the
  label stays open, and it prints the plain confirmation.
\<close>

theorem stop_time_updates_every_active:
  assumes "1 < length (filter (\<lambda>r. label_col r = l \<and> end_time_col r = None) (entries t))"
  shows "stop_time now l (Some t) =
           Inr (Some \<lparr>entries =
                        map (\<lambda>r. if label_col r = l \<and> end_time_col r = None
                                  then r\<lparr>end_time_col := Some now\<rparr> else r) (entries t),
                      sqlite_sequence = sqlite_sequence t\<rparr>,
                [StoppedTiming l])
       \<and> rows_changed (entries t)
           (map (\<lambda>r. if label_col r = l \<and> end_time_col r = None
                     then r\<lparr>end_time_col := Some now\<rparr> else r) (entries t)) =
         length (filter (\<lambda>r. label_col r = l \<and> end_time_col r = None) (entries t))
       \<and> filter (\<lambda>r. label_col r = l \<and> end_time_col r = None)
           (map (\<lambda>r. if label_col r = l \<and> end_time_col r = None
                     then r\<lparr>end_time_col := Some now\<rparr> else r) (entries t)) = []"
proof -
  let ?upd = "\<lambda>r. if label_col r = l \<and> end_time_col r = None
                   then r\<lparr>end_time_col := Some now\<rparr> else r"
  let ?act = "\<lambda>r. if is_active l r then r\<lparr>end_time_col := Some now\<rparr> else r"
  have m: "map ?upd (entries t) = map ?act (entries t)"
    by (rule map_cong) (simp_all add: is_active_def)
  have f: "filter (\<lambda>r. label_col r = l \<and> end_time_col r = None) (entries t) =
           filter (is_active l) (entries t)"
    by (rule filter_cong) (simp_all add: is_active_def)
  from assms have ne: "filter (is_active l) (entries t) \<noteq> []"
    unfolding f by auto
  have "stop_time now l (Some t) =
           Inr (Some \<lparr>entries = map ?act (entries t), sqlite_sequence = sqlite_sequence t\<rparr>,
                [StoppedTiming l])"
    using ne by (simp add: stop_time_Some)
  then have c1: "stop_time now l (Some t) =
           Inr (Some \<lparr>entries = map ?upd (entries t), sqlite_sequence = sqlite_sequence t\<rparr>,
                [StoppedTiming l])"
    unfolding m .
  have "rows_changed (entries t) (map ?act (entries t)) = length (filter (is_active l) (entries t))"
    by (rule rows_changed_map)
  then have c2: "rows_changed (entries t) (map ?upd (entries t)) =
         length (filter (\<lambda>r. label_col r = l \<and> end_time_col r = None) (entries t))"
    unfolding m f .
  have c3: "filter (\<lambda>r. label_col r = l \<and> end_time_col r = None) (map ?upd (entries t)) = []"
    unfolding filter_empty_conv
  proof
    fix x
    assume "x \<in> set (map ?upd (entries t))"
    then have "x \<in> ?upd ` set (entries t)" by (simp only: set_map)
    then obtain r where "x = ?upd r" by blast
    then show "\<not> (label_col x = l \<and> end_time_col x = None)"
      by (cases "label_col r = l \<and> end_time_col r = None") auto
  qed
  from c1 c2 c3 show ?thesis by (intro conjI)
qed

theorem stop_time_updates_every_active_witness:
  "1 < length (filter (\<lambda>r. label_col r = ''work'' \<and> end_time_col r = None)
                (entries two_active_table))
   \<and> stop_time t1130 ''work'' (Some two_active_table) =
       Inr (Some \<lparr>entries = [closed_row 1 ''work'' t0900 t1130,
                              closed_row 2 ''work'' t0900 t1130],
                  sqlite_sequence = 2\<rparr>,
            [StoppedTiming ''work''])"
proof -
  have h: "1 < length (filter (\<lambda>r. label_col r = ''work'' \<and> end_time_col r = None)
                (entries two_active_table))"
    by (simp add: two_active_table_def active_row_def)
  from stop_time_updates_every_active [OF h, of t1130]
  have "stop_time t1130 ''work'' (Some two_active_table) =
           Inr (Some \<lparr>entries =
                        map (\<lambda>r. if label_col r = ''work'' \<and> end_time_col r = None
                                  then r\<lparr>end_time_col := Some t1130\<rparr> else r)
                          (entries two_active_table),
                      sqlite_sequence = sqlite_sequence two_active_table\<rparr>,
                [StoppedTiming ''work''])"
    by (rule conjunct1)
  then have "stop_time t1130 ''work'' (Some two_active_table) =
       Inr (Some \<lparr>entries = [closed_row 1 ''work'' t0900 t1130,
                              closed_row 2 ''work'' t0900 t1130],
                  sqlite_sequence = 2\<rparr>,
            [StoppedTiming ''work''])"
    by (simp add: two_active_table_def active_row_def closed_row_def)
  with h show ?thesis by (intro conjI)
qed

section \<open>report\<close>

text \<open>
  C9. \<^verbatim>\<open>get_hours\<close> returns the store it was given, whatever the query answers: it
  only reads.
\<close>

theorem get_hours_store_unchanged:
  "\<exists>out. get_hours sel m (Some t) = Inr (Some t, out)"
  by (simp add: get_hours_Some Let_def)

theorem get_hours_store_unchanged_witness:
  "(\<exists>out. get_hours (\<lambda>mm rs. [(''work'', 5 / 2)]) 7 (Some mixed_table) =
            Inr (Some mixed_table, out))
   \<and> (\<exists>out. get_hours (\<lambda>mm rs. []) 7 (Some mixed_table) = Inr (Some mixed_table, out))"
  using get_hours_store_unchanged [of "\<lambda>mm rs. [(''work'', 5 / 2)]" 7 mixed_table]
    get_hours_store_unchanged [of "\<lambda>mm rs. []" 7 mixed_table]
  by simp

section \<open>Invariants and initialisation\<close>

text \<open>
  C7. On a store with at most one open entry for each label, each of
  \<^verbatim>\<open>start_time\<close>, \<^verbatim>\<open>stop_time\<close> and \<^verbatim>\<open>get_hours\<close> leaves a store with at most
  one open entry for each label, in which every entry that had an \<^verbatim>\<open>end_time\<close> is still
  at its place with the same id and the same \<^verbatim>\<open>end_time\<close>. \<^verbatim>\<open>stop_time\<close> and
  \<^verbatim>\<open>get_hours\<close> always return; \<^verbatim>\<open>start_time\<close> returns unless it has to insert and
  the largest rowid has been used: then it raises before any commit, and the store is
  still the given one, on which both invariants hold.
\<close>

theorem operations_preserve_invariants:
  assumes "one_active_per_label (entries t)"
  shows "(if (\<exists>r\<in>set (entries t). label_col r = l \<and> end_time_col r = None)
             \<or> largest_rowid t < max_rowid
          then \<exists>t' out. start_time now l (Some t) = Inr (Some t', out)
                 \<and> one_active_per_label (entries t')
                 \<and> end_times_kept (entries t) (entries t')
          else start_time now l (Some t) = Inl OperationalError
                 \<and> finish (Some t) (start_time now l (Some t)) =
                     (1, Some t, [Traceback OperationalError])
                 \<and> end_times_kept (entries t) (entries t))
       \<and> (\<exists>t' out. stop_time now l (Some t) = Inr (Some t', out)
            \<and> one_active_per_label (entries t') \<and> end_times_kept (entries t) (entries t'))
       \<and> (\<exists>t' out. get_hours sel m (Some t) = Inr (Some t', out)
            \<and> one_active_per_label (entries t') \<and> end_times_kept (entries t) (entries t'))"
proof (intro conjI)
  show "if (\<exists>r\<in>set (entries t). label_col r = l \<and> end_time_col r = None)
             \<or> largest_rowid t < max_rowid
          then \<exists>t' out. start_time now l (Some t) = Inr (Some t', out)
                 \<and> one_active_per_label (entries t')
                 \<and> end_times_kept (entries t) (entries t')
          else start_time now l (Some t) = Inl OperationalError
                 \<and> finish (Some t) (start_time now l (Some t)) =
                     (1, Some t, [Traceback OperationalError])
                 \<and> end_times_kept (entries t) (entries t)"
  proof (cases "filter (is_active l) (entries t) = []")
    case True
    then have no: "\<not> (\<exists>r\<in>set (entries t). label_col r = l \<and> end_time_col r = None)"
      by (simp add: filter_active_empty_iff)
    show ?thesis
    proof (cases "largest_rowid t < max_rowid")
      case True
      with \<open>filter (is_active l) (entries t) = []\<close> assms show ?thesis
        by (simp add: start_time_Some insert_entry_def next_rowid_def one_active_insert
            end_times_kept_append)
    next
      case False
      with \<open>filter (is_active l) (entries t) = []\<close> no show ?thesis
        by (simp add: start_time_Some insert_entry_def next_rowid_def finish_def
            end_times_kept_refl)
    qed
  next
    case False
    then have "\<exists>r\<in>set (entries t). label_col r = l \<and> end_time_col r = None"
      by (simp add: filter_active_empty_iff)
    with False assms show ?thesis
      by (simp add: start_time_Some end_times_kept_refl)
  qed
  show "\<exists>t' out. stop_time now l (Some t) = Inr (Some t', out)
            \<and> one_active_per_label (entries t') \<and> end_times_kept (entries t) (entries t')"
    using assms by (simp add: stop_time_Some one_active_update end_times_kept_update)
  show "\<exists>t' out. get_hours sel m (Some t) = Inr (Some t', out)
            \<and> one_active_per_label (entries t') \<and> end_times_kept (entries t) (entries t')"
    using assms by (simp add: get_hours_Some Let_def end_times_kept_refl)
qed

theorem operations_preserve_invariants_witness:
  "one_active_per_label (entries mixed_table)
   \<and> (\<exists>t' out. start_time t1130 ''work'' (Some mixed_table) = Inr (Some t', out)
          \<and> one_active_per_label (entries t') \<and> end_times_kept (entries mixed_table) (entries t'))
   \<and> (\<exists>t' out. stop_time t1130 ''writing'' (Some mixed_table) = Inr (Some t', out)
          \<and> one_active_per_label (entries t') \<and> end_times_kept (entries mixed_table) (entries t'))
   \<and> (\<exists>t' out. get_hours (\<lambda>mm rs. [(''work'', 5)]) 7 (Some mixed_table) = Inr (Some t', out)
          \<and> one_active_per_label (entries t') \<and> end_times_kept (entries mixed_table) (entries t'))
   \<and> one_active_per_label (entries full_table)
   \<and> start_time t1130 ''writing'' (Some full_table) = Inl OperationalError"
proof -
  have h: "one_active_per_label (entries mixed_table)"
    by (simp add: one_active_per_label_def mixed_table_def closed_row_def active_row_def)
  have c: "largest_rowid mixed_table < max_rowid"
    by (simp add: largest_rowid_def max_rowid_def mixed_table_def closed_row_def active_row_def)
  have h': "one_active_per_label (entries full_table)"
    by (simp add: one_active_per_label_def full_table_def closed_row_def)
  have c': "\<not> ((\<exists>r\<in>set (entries full_table). label_col r = ''writing'' \<and> end_time_col r = None)
             \<or> largest_rowid full_table < max_rowid)"
    by (simp add: largest_rowid_def max_rowid_def full_table_def closed_row_def)
  from operations_preserve_invariants [OF h, of "''work''" t1130 "\<lambda>mm rs. [(''work'', 5)]" 7] c
  have 1: "\<exists>t' out. start_time t1130 ''work'' (Some mixed_table) = Inr (Some t', out)
          \<and> one_active_per_label (entries t') \<and> end_times_kept (entries mixed_table) (entries t')"
    by simp
  from operations_preserve_invariants [OF h, of "''writing''" t1130 "\<lambda>mm rs. [(''work'', 5)]" 7]
  have 2: "(\<exists>t' out. stop_time t1130 ''writing'' (Some mixed_table) = Inr (Some t', out)
          \<and> one_active_per_label (entries t') \<and> end_times_kept (entries mixed_table) (entries t'))
   \<and> (\<exists>t' out. get_hours (\<lambda>mm rs. [(''work'', 5)]) 7 (Some mixed_table) = Inr (Some t', out)
          \<and> one_active_per_label (entries t') \<and> end_times_kept (entries mixed_table) (entries t'))"
    by blast
  from operations_preserve_invariants [OF h', of "''writing''" t1130 "\<lambda>mm rs. []" 7] c'
  have 3: "start_time t1130 ''writing'' (Some full_table) = Inl OperationalError"
    by simp
  from h h' 1 2 3 show ?thesis by blast
qed

text \<open>
  C8. \<^verbatim>\<open>init_db\<close> twice is \<^verbatim>\<open>init_db\<close> once; on a store that has the table it
  changes nothing, so no entry is dropped or altered; and the program behaves the same after
  the second initialisation as after the first.
\<close>

theorem init_db_idempotent:
  "init_db (init_db s) = init_db s
   \<and> init_db (Some t) = Some t
   \<and> main sel now a (init_db (init_db s)) = main sel now a (init_db s)"
  by (cases s) (simp_all add: init_db_eq create_table_if_not_exists_def)

theorem init_db_idempotent_witness:
  "init_db (init_db None) = Some empty_table
   \<and> init_db (Some mixed_table) = Some mixed_table
   \<and> main (\<lambda>mm rs. []) t0900 \<lparr>action = Start, label = ''work'', month = 7\<rparr>
        (init_db (init_db None)) =
      (0, Some one_active_table, [StartedTiming ''work''])"
proof -
  have i: "init_db None = Some empty_table"
    by (simp add: init_db_eq create_table_if_not_exists_def empty_table_def)
  have m: "main (\<lambda>mm rs. []) t0900 \<lparr>action = Start, label = ''work'', month = 7\<rparr>
             (Some empty_table) = (0, Some one_active_table, [StartedTiming ''work''])"
    by (simp add: main_def init_db_eq create_table_if_not_exists_def finish_def start_time_Some
        empty_table_def one_active_table_def active_row_def insert_entry_def next_rowid_def
        largest_rowid_def max_rowid_def)
  from init_db_idempotent [of None mixed_table "\<lambda>mm rs. []" t0900
      "\<lparr>action = Start, label = ''work'', month = 7\<rparr>"]
  show ?thesis by (simp add: i m)
qed

section \<open>Exit status\<close>

text \<open>
  C1. \<^verbatim>\<open>start\<close> on a label with an open session, and \<^verbatim>\<open>stop\<close> on a label
  without one, print their error and the process ends with status 0: neither
  \<^verbatim>\<open>start_time\<close> nor \<^verbatim>\<open>stop_time\<close> calls \<^verbatim>\<open>sys.exit(1)\<close> as the checks of
  \<^verbatim>\<open>main\<close> do.
\<close>

theorem main_exit_status_rejected:
  "main sel t1130 \<lparr>action = Start, label = ''work'', month = 7\<rparr>
       (Some one_active_table) =
     (0, Some one_active_table, [ErrorActiveSession ''work''])
   \<and> main sel t1130 \<lparr>action = Stop, label = ''ghost'', month = 7\<rparr>
       (Some one_active_table) =
     (0, Some one_active_table, [ErrorNoActiveSession ''ghost''])"
  by (simp add: main_def init_db_eq create_table_if_not_exists_def finish_def
      start_time_Some stop_time_Some one_active_table_def active_row_def is_active_def)

end
